theory Spec2Isabelle
  imports Complex_Main "HOL-Library.Multiset"
begin

text \<open>
  A model of the sensor data collection service: the store adapter \<open>firebaseConfig\<close>
  (chunked batch commits of sensor records, the single batch of a station poll, the
  recency queries), the station poller \<open>dublinBikesFetcher\<close> with its statistics, and the
  HTTP handlers of \<open>server.js\<close> (session start, posting of records, count, CSV export,
  query endpoints). Module state is passed explicitly, exceptions are values of a sum
  type, and what lies outside the repository (the document store, the upstream API, the
  clock) is an input of the functions. Limits of the runtime on memory and on the size of
  an argument list are not modelled.
\<close>

section \<open>Numbers and dates as the JavaScript runtime renders them\<close>

text \<open>
  The sources render numbers in three places: \<open>Date.now().toString()\<close> (the session
  identifier), template literals such as \<open>`Received ${data.length} points`\<close>, and
  \<open>row.join(',')\<close> in the CSV export. For an integer below \<open>10^21\<close> in magnitude the
  runtime prints the plain decimal digits, with a leading minus sign for a negative value.
  Integers are modelled by \<open>int\<close> and \<open>nat\<close>: arithmetic is exact, as it is in the runtime
  for integers below \<open>2^53\<close>.
\<close>

definition digit_char :: "nat \<Rightarrow> char" where
  "digit_char d = char_of (48 + d)"

function nat_str :: "nat \<Rightarrow> string" where
  "nat_str n = (if n < 10 then [digit_char n] else nat_str (n div 10) @ [digit_char (n mod 10)])"
  by pat_completeness auto
termination
  by (relation "measure (\<lambda>n. n)") auto

declare nat_str.simps [simp del]

definition int_str :: "int \<Rightarrow> string" where
  "int_str i = (if i < 0 then CHR ''-'' # nat_str (nat (- i)) else nat_str (nat i))"

definition pad :: "nat \<Rightarrow> string \<Rightarrow> string" where
  "pad w s = replicate (w - length s) (CHR ''0'') @ s"

text \<open>
  \<open>x.toFixed(3)\<close> where \<open>x\<close> is \<open>d / 1000\<close> for an integer \<open>d\<close>: the integer part, a
  dot, and the three decimals, which are exactly \<open>d mod 1000\<close>. A negative value is
  rendered as the minus sign followed by the rendering of its magnitude. The runtime
  divides in binary floating point and prints the nearest number with three decimals,
  which is this rendering as long as \<open>d\<close> is below \<open>8.7 * 10^15\<close> in magnitude.
\<close>

definition toFixed3_nat :: "nat \<Rightarrow> string" where
  "toFixed3_nat d = nat_str (d div 1000) @ ''.'' @ pad 3 (nat_str (d mod 1000))"

definition toFixed3 :: "int \<Rightarrow> string" where
  "toFixed3 d = (if d < 0 then CHR ''-'' # toFixed3_nat (nat (- d)) else toFixed3_nat (nat d))"

text \<open>
  \<open>new Date(t).toISOString()\<close>. A time value is a number of milliseconds since the epoch
  of magnitude at most \<open>8.64 * 10^15\<close>; outside that range the date is invalid and
  \<open>toISOString\<close> throws a \<open>RangeError\<close> with message \<open>Invalid time value\<close>. The calendar
  date is obtained from the day number in the proleptic Gregorian calendar (counting in
  eras of 400 years that start on 1 March); years outside 0..9999 are written with a sign
  and six digits.
\<close>

definition valid_time :: "int \<Rightarrow> bool" where
  "valid_time t = (\<bar>t\<bar> \<le> 8640000000000000)"

definition civil_from_days :: "int \<Rightarrow> int \<times> int \<times> int" where
  "civil_from_days day =
     (let z = day + 719468;
          era = z div 146097;
          doe = z - era * 146097;
          yoe = (doe - doe div 1460 + doe div 36524 - doe div 146096) div 365;
          doy = doe - (365 * yoe + yoe div 4 - yoe div 100);
          mp = (5 * doy + 2) div 153;
          d = doy - (153 * mp + 2) div 5 + 1;
          m = (if mp < 10 then mp + 3 else mp - 9);
          y = yoe + era * 400 + (if m \<le> 2 then 1 else 0)
      in (y, m, d))"

definition year_str :: "int \<Rightarrow> string" where
  "year_str y =
     (if 0 \<le> y \<and> y \<le> 9999 then pad 4 (nat_str (nat y))
      else (if y < 0 then CHR ''-'' else CHR ''+'') # pad 6 (nat_str (nat \<bar>y\<bar>)))"

definition pad_int :: "nat \<Rightarrow> int \<Rightarrow> string" where
  "pad_int w i = pad w (nat_str (nat i))"

definition iso_string :: "int \<Rightarrow> string" where
  "iso_string t =
     (let ms = t mod 86400000 in
      case civil_from_days (t div 86400000) of (y, m, d) \<Rightarrow>
        year_str y @ ''-'' @ pad_int 2 m @ ''-'' @ pad_int 2 d @ ''T''
        @ pad_int 2 (ms div 3600000) @ '':'' @ pad_int 2 (ms div 60000 mod 60) @ '':''
        @ pad_int 2 (ms div 1000 mod 60) @ ''.'' @ pad_int 3 (ms mod 1000) @ ''Z'')"

definition toISOString :: "int \<Rightarrow> string + string" where
  "toISOString t = (if valid_time t then Inr (iso_string t) else Inl ''Invalid time value'')"


definition is_digit :: "char \<Rightarrow> bool" where
  "is_digit c = (48 \<le> (of_char c :: nat) \<and> (of_char c :: nat) \<le> 57)"

definition digit_val :: "char \<Rightarrow> nat" where
  "digit_val c = of_char c - 48"



definition digits_val :: "string \<Rightarrow> nat" where
  "digits_val s = foldl (\<lambda>acc c. 10 * acc + digit_val c) 0 s"





section \<open>Data model\<close>

text \<open>
  A sensor record as the device posts it: the timestamp in integer milliseconds and ten
  optional numeric readings (\<open>None\<close> when the field is absent). A reading is a finite
  number, hence a rational.
\<close>

record sensor_record =
  timestamp :: int
  latitude :: "rat option"
  longitude :: "rat option"
  altitude :: "rat option"
  speed :: "rat option"
  accuracy :: "rat option"
  heading :: "rat option"
  accel_x :: "rat option"
  accel_y :: "rat option"
  accel_z :: "rat option"
  accel_magnitude :: "rat option"

text \<open>A station object as the upstream API returns it; every field may be missing.\<close>

record upstream_station =
  u_number :: "int option"
  u_name :: "string option"
  u_address :: "string option"
  u_position :: "(rat option \<times> rat option) option"
  u_banking :: "bool option"
  u_bonus :: "bool option"
  u_bike_stands :: "int option"
  u_available_bike_stands :: "int option"
  u_available_bikes :: "int option"
  u_status :: "string option"
  u_last_update :: "int option"

text \<open>The station record built by \<open>fetchDublinBikes\<close>.\<close>

record station_record =
  station_number :: "int option"
  station_name :: "string option"
  address :: "string option"
  position :: "rat option \<times> rat option"
  banking :: bool
  bonus :: bool
  bike_stands :: int
  available_bike_stands :: int
  available_bikes :: int
  status :: string
  last_update :: "int option"

text \<open>
  A document written to the store. Every document also carries \<open>created_at\<close>, the
  store's own server timestamp, which has no value on the client side; a station document
  carries \<open>fetched_at\<close> as well.
\<close>

datatype doc = SensorDoc sensor_record | StationDoc station_record (fetched_at: int)

type_synonym batch_write = "string \<times> doc"

text \<open>
  Values of the objects that the functions return and the handlers send, and the objects
  themselves as lists of fields; a field that an object does not have reads as
  \<open>undefined\<close>, here \<open>None\<close>.
\<close>

datatype jv = VNull | VBool bool | VNum int | VStr string | VDocs "(string \<times> doc) list"

type_synonym obj = "(string \<times> jv) list"

definition field :: "obj \<Rightarrow> string \<Rightarrow> jv option" where
  "field ob k = map_of ob k"

fun truthy :: "jv option \<Rightarrow> bool" where
  "truthy None = False"
| "truthy (Some VNull) = False"
| "truthy (Some (VBool b)) = b"
| "truthy (Some (VNum n)) = (n \<noteq> 0)"
| "truthy (Some (VStr s)) = (s \<noteq> [])"
| "truthy (Some (VDocs ds)) = True"

section \<open>The durable store\<close>

text \<open>
  The document store is outside the repository. Its state records what the code can
  observe and what the claims speak about: whether the SDK can be initialised
  (\<open>init_error\<close> is the message of the exception otherwise), the outcomes of the coming
  \<open>commit()\<close> calls (\<open>None\<close> accepts the batch, \<open>Some e\<close> rejects it with message \<open>e\<close>;
  when the list is used up every batch is accepted), the batches committed so far, every
  batch submitted so far, the answer of the store to a query, and the queries made.
\<close>

record sink =
  init_error :: "string option"
  responses :: "string option list"
  committed :: "batch_write list list"
  attempted :: "batch_write list list"
  recent :: "string \<Rightarrow> int \<Rightarrow> string + (string \<times> doc) list"
  queries :: "(string \<times> int) list"

definition getFirestore :: "sink \<Rightarrow> string + unit" where
  "getFirestore s = (case init_error s of Some e \<Rightarrow> Inl e | None \<Rightarrow> Inr ())"

definition commit_batch :: "batch_write list \<Rightarrow> sink \<Rightarrow> (string + unit) \<times> sink" where
  "commit_batch ws s =
     (case responses s of
        [] \<Rightarrow> (Inr (), s\<lparr>committed := committed s @ [ws], attempted := attempted s @ [ws]\<rparr>)
      | None # rs \<Rightarrow>
          (Inr (), s\<lparr>responses := rs, committed := committed s @ [ws],
                     attempted := attempted s @ [ws]\<rparr>)
      | Some e # rs \<Rightarrow> (Inl e, s\<lparr>responses := rs, attempted := attempted s @ [ws]\<rparr>))"


section \<open>The store adapter (\<open>firebaseConfig\<close>)\<close>

definition failure :: "string \<Rightarrow> obj" where
  "failure e = [(''success'', VBool False), (''error'', VStr e)]"

definition BATCH_SIZE :: nat where
  "BATCH_SIZE = 500"

text \<open>
  The \<open>for\<close> loop of \<open>addSensorDataBatch\<close>: \<open>i\<close> is the loop variable, \<open>results\<close> the
  array of per-chunk results. An exception of \<open>commit()\<close> leaves the loop and reaches the
  \<open>catch\<close> block of the function. The batch that the function creates before the loop is
  never used and has no effect.
\<close>

function addSensorDataBatch_loop ::
  "sensor_record list \<Rightarrow> nat \<Rightarrow> (bool \<times> nat) list \<Rightarrow> sink \<Rightarrow> (string + (bool \<times> nat) list) \<times> sink"
where
  "addSensorDataBatch_loop dataPoints i results s =
     (if i < length dataPoints then
        (let chunk = take BATCH_SIZE (drop i dataPoints);
             currentBatch = map (\<lambda>dataPoint. (''sensor_data'', SensorDoc dataPoint)) chunk
         in case commit_batch currentBatch s of
              (Inl e, s') \<Rightarrow> (Inl e, s')
            | (Inr u, s') \<Rightarrow>
                addSensorDataBatch_loop dataPoints (i + BATCH_SIZE)
                  (results @ [(True, length chunk)]) s')
      else (Inr results, s))"
  by pat_completeness auto
termination
  by (relation "measure (\<lambda>(dataPoints, i, results, s). length dataPoints - i)")
     (auto simp: BATCH_SIZE_def)

declare addSensorDataBatch_loop.simps [simp del]

definition addSensorDataBatch :: "sensor_record list \<Rightarrow> sink \<Rightarrow> obj \<times> sink" where
  "addSensorDataBatch dataPoints s =
     (case getFirestore s of
        Inl e \<Rightarrow> (failure e, s)
      | Inr db \<Rightarrow>
          (case addSensorDataBatch_loop dataPoints 0 [] s of
             (Inl e, s') \<Rightarrow> (failure e, s')
           | (Inr results, s') \<Rightarrow>
               ([(''success'', VBool True),
                 (''totalAdded'', VNum (int (length dataPoints))),
                 (''batches'', VNum (int (length results)))], s')))"

text \<open>
  \<open>addDublinBikesData\<close>: one batch for all the stations, one \<open>commit()\<close>. \<open>now\<close> is
  the reading of the clock by \<open>new Date()\<close>, always a valid time value.
\<close>

definition addDublinBikesData :: "station_record list \<Rightarrow> int \<Rightarrow> sink \<Rightarrow> obj \<times> sink" where
  "addDublinBikesData stationsData now s =
     (case getFirestore s of
        Inl e \<Rightarrow> (failure e, s)
      | Inr db \<Rightarrow>
          (let batch = map (\<lambda>station. (''dublin_bikes'', StationDoc station now)) stationsData
           in case commit_batch batch s of
                (Inl e, s') \<Rightarrow> (failure e, s')
              | (Inr u, s') \<Rightarrow>
                  ([(''success'', VBool True),
                    (''stationsAdded'', VNum (int (length stationsData))),
                    (''timestamp'', VStr (iso_string now))], s')))"




section \<open>The station poller (\<open>dublinBikesFetcher\<close>)\<close>

text \<open>
  What \<open>fetch(url)\<close> and \<open>response.json()\<close> can give: a network failure (an exception
  with a message), or a response with its status, status text and body; the body either
  raises while it is read as an array of stations (it is not JSON, or \<open>stations.map\<close> is
  not a function) or is an array of station objects.
\<close>

datatype body = BodyError string | BodyStations "upstream_station list"

datatype fetch_outcome = NetworkError string | HttpResponse nat string body

text \<open>
  The environment of one tick: the API key of the process environment, the upstream
  service, and the two readings of the clock (by \<open>addDublinBikesData\<close> and after the
  commit).
\<close>

record environment =
  JCDECAUX_API_KEY :: "string option"
  fetch :: "string \<Rightarrow> fetch_outcome"
  clock_commit :: int
  clock_done :: int

text \<open>
  The statistics of the module, and a record of the URLs requested so far, which makes
  the network accesses observable.
\<close>

record poller =
  fetchCount :: nat
  lastFetchTime :: "string option"
  lastFetchStatus :: string
  requests :: "string list"

definition initial_poller :: poller where
  "initial_poller =
     \<lparr>fetchCount = 0, lastFetchTime = None, lastFetchStatus = ''Not started'', requests = []\<rparr>"

definition JCDECAUX_API_URL :: string where
  "JCDECAUX_API_URL = ''https://api.jcdecaux.com/vls/v1/stations''"

definition CONTRACT_NAME :: string where
  "CONTRACT_NAME = ''dublin''"

text \<open>The URL of the request, built from the endpoint, the contract and the key.\<close>

definition request_url :: "string \<Rightarrow> string" where
  "request_url key = JCDECAUX_API_URL @ ''?contract='' @ CONTRACT_NAME @ ''&apiKey='' @ key"

text \<open>A value inside a template literal.\<close>

fun template :: "jv option \<Rightarrow> string" where
  "template None = ''undefined''"
| "template (Some VNull) = ''null''"
| "template (Some (VBool b)) = (if b then ''true'' else ''false'')"
| "template (Some (VNum n)) = int_str n"
| "template (Some (VStr s)) = s"
| "template (Some (VDocs ds)) = ''[object Object]''"

text \<open>
  The callback of \<open>stations.map\<close>. Reading \<open>station.position.lat\<close> of a station with no
  position raises a \<open>TypeError\<close>; \<open>x || d\<close> is \<open>d\<close> when \<open>x\<close> is missing, zero, empty or
  false.
\<close>

definition transform_station :: "upstream_station \<Rightarrow> string + station_record" where
  "transform_station station =
     (case u_position station of
        None \<Rightarrow> Inl (''Cannot read properties of undefined (reading '' @ [CHR 0x27] @ ''lat''
                     @ [CHR 0x27] @ '')'')
      | Some (lat, lng) \<Rightarrow>
          Inr \<lparr>station_number = u_number station,
               station_name = u_name station,
               address = u_address station,
               position = (lat, lng),
               banking = (u_banking station = Some True),
               bonus = (u_bonus station = Some True),
               bike_stands = (case u_bike_stands station of None \<Rightarrow> 0 | Some n \<Rightarrow> n),
               available_bike_stands =
                 (case u_available_bike_stands station of None \<Rightarrow> 0 | Some n \<Rightarrow> n),
               available_bikes = (case u_available_bikes station of None \<Rightarrow> 0 | Some n \<Rightarrow> n),
               status =
                 (case u_status station of
                    None \<Rightarrow> ''UNKNOWN''
                  | Some st \<Rightarrow> if st = [] then ''UNKNOWN'' else st),
               last_update =
                 (case u_last_update station of
                    None \<Rightarrow> None
                  | Some t \<Rightarrow> if t = 0 then None else Some t)\<rparr>)"

fun transform_all :: "upstream_station list \<Rightarrow> string + station_record list" where
  "transform_all [] = Inr []"
| "transform_all (station # rest) =
     (case transform_station station of
        Inl e \<Rightarrow> Inl e
      | Inr r \<Rightarrow> (case transform_all rest of Inl e \<Rightarrow> Inl e | Inr rs \<Rightarrow> Inr (r # rs)))"

text \<open>The \<open>catch\<close> block of \<open>fetchDublinBikes\<close>.\<close>

definition caught :: "string \<Rightarrow> poller \<Rightarrow> sink \<Rightarrow> obj \<times> poller \<times> sink" where
  "caught e p s = (failure e, p\<lparr>lastFetchStatus := ''Error: '' @ e\<rparr>, s)"

definition missing_key :: "poller \<Rightarrow> sink \<Rightarrow> obj \<times> poller \<times> sink" where
  "missing_key p s =
     (failure ''Missing API key'', p\<lparr>lastFetchStatus := ''Error: Missing API key''\<rparr>, s)"

text \<open>What follows the transformation: the commit and the update of the statistics.\<close>

definition store_stations ::
  "environment \<Rightarrow> station_record list \<Rightarrow> poller \<Rightarrow> sink \<Rightarrow> obj \<times> poller \<times> sink"
where
  "store_stations env transformedStations p s =
     (case addDublinBikesData transformedStations (clock_commit env) s of
        (result, s') \<Rightarrow>
          if truthy (field result ''success'') then
            (let p2 = p\<lparr>fetchCount := fetchCount p + 1,
                          lastFetchTime := Some (iso_string (clock_done env)),
                          lastFetchStatus :=
                            ''Success: '' @ nat_str (length transformedStations) @ '' stations''\<rparr>
             in ([(''success'', VBool True),
                  (''stationsCount'', VNum (int (length transformedStations))),
                  (''fetchCount'', VNum (int (fetchCount p2)))], p2, s'))
          else
            (result, p\<lparr>lastFetchStatus := ''Error: '' @ template (field result ''error'')\<rparr>, s'))"

definition fetchDublinBikes :: "environment \<Rightarrow> poller \<Rightarrow> sink \<Rightarrow> obj \<times> poller \<times> sink" where
  "fetchDublinBikes env p s =
     (case JCDECAUX_API_KEY env of
        None \<Rightarrow> missing_key p s
      | Some key \<Rightarrow>
          if key = [] then missing_key p s
          else
            (let url = request_url key;
                 p1 = p\<lparr>requests := requests p @ [url]\<rparr>
             in case fetch env url of
                  NetworkError e \<Rightarrow> caught e p1 s
                | HttpResponse code statusText b \<Rightarrow>
                    if \<not> (200 \<le> code \<and> code \<le> 299) then
                      caught (''API returned status '' @ nat_str code @ '': '' @ statusText) p1 s
                    else
                      (case b of
                         BodyError e \<Rightarrow> caught e p1 s
                       | BodyStations stations \<Rightarrow>
                           (case transform_all stations of
                              Inl e \<Rightarrow> caught e p1 s
                            | Inr transformedStations \<Rightarrow>
                                store_stations env transformedStations p1 s))))"

definition getFetcherStats :: "poller \<Rightarrow> obj" where
  "getFetcherStats p =
     [(''fetchCount'', VNum (int (fetchCount p))),
      (''lastFetchTime'', (case lastFetchTime p of None \<Rightarrow> VNull | Some t \<Rightarrow> VStr t)),
      (''lastFetchStatus'', VStr (lastFetchStatus p)),
      (''isRunning'', VBool True),
      (''schedule'', VStr ''Every 5 minutes''),
      (''apiEndpoint'', VStr JCDECAUX_API_URL),
      (''contractName'', VStr CONTRACT_NAME)]"

section \<open>The HTTP handlers (\<open>server.js\<close>)\<close>

text \<open>
  The module state of the server, \<open>sensorData\<close> and \<open>sessionId\<close>, together with the
  store that the adapter writes to.
\<close>

record server =
  sensorData :: "sensor_record list"
  sessionId :: "string option"
  store :: sink

definition initial_server :: "sink \<Rightarrow> server" where
  "initial_server s = \<lparr>sensorData = [], sessionId = None, store = s\<rparr>"

text \<open>
  A response is a status with a JSON object, or the CSV download with its two headers.
  An exception that leaves a handler reaches the error-handling middleware, which answers
  500 with a fixed object.
\<close>

datatype response = Json nat obj | Csv "(string \<times> string) list" string


definition session_value :: "string option \<Rightarrow> jv" where
  "session_value sid = (case sid of None \<Rightarrow> VNull | Some i \<Rightarrow> VStr i)"

text \<open>\<open>POST /api/session/start\<close>; \<open>now\<close> is the reading of \<open>Date.now()\<close>.\<close>

definition start_session :: "int \<Rightarrow> server \<Rightarrow> response \<times> server" where
  "start_session now sv =
     (let sid = int_str now
      in (Json 200 [(''success'', VBool True), (''sessionId'', VStr sid),
                    (''message'', VStr ''Session started'')],
          sv\<lparr>sessionId := Some sid, sensorData := []\<rparr>))"

text \<open>
  The \<open>data\<close> field of the body of \<open>POST /api/data\<close>: missing, or any JSON value. The
  elements of an array are the sensor records.
\<close>

datatype body_data =
  DUndefined | DNull | DBool bool | DNum rat | DStr string | DObj | DArr "sensor_record list"

fun falsy :: "body_data \<Rightarrow> bool" where
  "falsy DUndefined = True"
| "falsy DNull = True"
| "falsy (DBool b) = (\<not> b)"
| "falsy (DNum x) = (x = 0)"
| "falsy (DStr s) = (s = [])"
| "falsy DObj = False"
| "falsy (DArr xs) = False"

fun isArray :: "body_data \<Rightarrow> bool" where
  "isArray (DArr xs) = True"
| "isArray d = False"

fun elements :: "body_data \<Rightarrow> sensor_record list" where
  "elements (DArr xs) = xs"
| "elements d = []"

text \<open>
  \<open>POST /api/data\<close>. The result of \<open>addSensorDataBatch\<close> only selects the line that is
  written to the console; the response is the same on both branches.
\<close>

definition post_data :: "body_data \<Rightarrow> server \<Rightarrow> response \<times> server" where
  "post_data d sv =
     (if falsy d \<or> \<not> isArray d then
        (Json 400 [(''success'', VBool False), (''error'', VStr ''Invalid data format'')], sv)
      else
        (let sv1 = sv\<lparr>sensorData := sensorData sv @ elements d\<rparr>
         in case addSensorDataBatch (elements d) (store sv1) of
              (firestoreResult, s') \<Rightarrow>
                (Json 200 [(''success'', VBool True),
                           (''totalPoints'', VNum (int (length (sensorData sv1)))),
                           (''message'',
                            VStr (''Received '' @ nat_str (length (elements d)) @ '' points'')),
                           (''storedToCloud'', VBool True)],
                 sv1\<lparr>store := s'\<rparr>)))"

text \<open>\<open>GET /api/data/count\<close> and \<open>POST /api/session/stop\<close>.\<close>

definition get_count :: "server \<Rightarrow> response" where
  "get_count sv =
     Json 200 [(''count'', VNum (int (length (sensorData sv)))),
               (''sessionId'', session_value (sessionId sv))]"

definition stop_session :: "server \<Rightarrow> response \<times> server" where
  "stop_session sv =
     (Json 200 [(''success'', VBool True), (''message'', VStr ''Session stopped''),
                (''dataPoints'', VNum (int (length (sensorData sv)))),
                (''sessionId'', session_value (sessionId sv))], sv)"

text \<open>
  \<open>GET /api/data/download\<close>. A cell \<open>point.f || ''\<close> of the row is the empty string when
  the reading is missing or zero and the reading otherwise, which \<open>join\<close> renders as a
  number; the rendering of a non-integer number is left to the runtime, the parameter
  \<open>num_str\<close>.
\<close>

definition headers :: "string list" where
  "headers = [''timestamp'', ''datetime'', ''seconds_elapsed'', ''latitude'', ''longitude'',
              ''altitude'', ''speed'', ''accuracy'', ''heading'', ''accel_x'', ''accel_y'',
              ''accel_z'', ''accel_magnitude'']"

fun join :: "string \<Rightarrow> string list \<Rightarrow> string" where
  "join sep [] = []"
| "join sep [x] = x"
| "join sep (x # y # ys) = x @ sep @ join sep (y # ys)"

definition or_empty :: "(rat \<Rightarrow> string) \<Rightarrow> rat option \<Rightarrow> string" where
  "or_empty num_str v = (case v of None \<Rightarrow> [] | Some x \<Rightarrow> if x = 0 then [] else num_str x)"

definition newline :: string where
  "newline = [CHR 0x0A]"

definition csv_cells :: "(rat \<Rightarrow> string) \<Rightarrow> int \<Rightarrow> sensor_record \<Rightarrow> string + string list" where
  "csv_cells num_str startTime point =
     (case toISOString (timestamp point) of
        Inl e \<Rightarrow> Inl e
      | Inr datetime \<Rightarrow>
          Inr [int_str (timestamp point),
               datetime,
               toFixed3 (timestamp point - startTime),
               or_empty num_str (latitude point),
               or_empty num_str (longitude point),
               or_empty num_str (altitude point),
               or_empty num_str (speed point),
               or_empty num_str (accuracy point),
               or_empty num_str (heading point),
               or_empty num_str (accel_x point),
               or_empty num_str (accel_y point),
               or_empty num_str (accel_z point),
               or_empty num_str (accel_magnitude point)])"

text \<open>The \<open>forEach\<close> over the sorted records; \<open>csv\<close> is the text built so far.\<close>

fun csv_rows :: "(rat \<Rightarrow> string) \<Rightarrow> int \<Rightarrow> string \<Rightarrow> sensor_record list \<Rightarrow> string + string" where
  "csv_rows num_str startTime csv [] = Inr csv"
| "csv_rows num_str startTime csv (point # rest) =
     (case csv_cells num_str startTime point of
        Inl e \<Rightarrow> Inl e
      | Inr row \<Rightarrow> csv_rows num_str startTime (csv @ join '','' row @ newline) rest)"

text \<open>
  The sort of the runtime is stable and the comparator \<open>a.timestamp - b.timestamp\<close> orders
  by timestamp, so the sorted copy is the stable sort by that key.
\<close>

definition exportCsv :: "(rat \<Rightarrow> string) \<Rightarrow> sensor_record list \<Rightarrow> string + string" where
  "exportCsv num_str buffer =
     (let sortedData = sort_key timestamp buffer
      in case sortedData of
           [] \<Rightarrow> Inl (''Cannot read properties of undefined (reading '' @ [CHR 0x27]
                      @ ''timestamp'' @ [CHR 0x27] @ '')'')
         | first # others \<Rightarrow>
             csv_rows num_str (timestamp first) (join '','' headers @ newline) sortedData)"







section \<open>Observations and fixtures used in the statements\<close>


fun json_body :: "response \<Rightarrow> obj" where
  "json_body (Json code ob) = ob"
| "json_body (Csv hs b) = []"


text \<open>
  A store that is initialised, accepts every batch and holds nothing, and a sensor record
  with a timestamp and no reading.
\<close>

definition fresh_sink :: sink where
  "fresh_sink =
     \<lparr>init_error = None, responses = [], committed = [], attempted = [],
      recent = (\<lambda>coll limit. Inr []), queries = []\<rparr>"

definition bare_record :: "int \<Rightarrow> sensor_record" where
  "bare_record t =
     \<lparr>timestamp = t, latitude = None, longitude = None, altitude = None, speed = None,
      accuracy = None, heading = None, accel_x = None, accel_y = None, accel_z = None,
      accel_magnitude = None\<rparr>"

text \<open>
  The partition of a list into consecutive chunks of at most \<open>n\<close> elements, as the
  specification describes it, and the batch of writes that a chunk of sensor records or a
  list of stations becomes.
\<close>

function chunks :: "nat \<Rightarrow> 'a list \<Rightarrow> 'a list list" where
  "chunks n xs = (if n = 0 \<or> xs = [] then [] else take n xs # chunks n (drop n xs))"
  by pat_completeness auto
termination
  by (relation "measure (\<lambda>(n, xs). length xs)") auto

declare chunks.simps [simp del]

definition sensor_batch :: "sensor_record list \<Rightarrow> batch_write list" where
  "sensor_batch chunk = map (\<lambda>dataPoint. (''sensor_data'', SensorDoc dataPoint)) chunk"

text \<open>A station record with every default, and the batch of one poll.\<close>

definition bare_station :: station_record where
  "bare_station =
     \<lparr>station_number = None, station_name = None, address = None, position = (None, None),
      banking = False, bonus = False, bike_stands = 0, available_bike_stands = 0,
      available_bikes = 0, status = ''UNKNOWN'', last_update = None\<rparr>"

definition station_batch :: "int \<Rightarrow> station_record list \<Rightarrow> batch_write list" where
  "station_batch now stationsData =
     map (\<lambda>station. (''dublin_bikes'', StationDoc station now)) stationsData"

text \<open>
  One line of the export for a record whose timestamp is a valid time value, with the
  timestamp of the first line given.
\<close>

definition csv_line :: "(rat \<Rightarrow> string) \<Rightarrow> int \<Rightarrow> sensor_record \<Rightarrow> string" where
  "csv_line num_str startTime point =
     join '','' [int_str (timestamp point),
                iso_string (timestamp point),
                toFixed3 (timestamp point - startTime),
                or_empty num_str (latitude point),
                or_empty num_str (longitude point),
                or_empty num_str (altitude point),
                or_empty num_str (speed point),
                or_empty num_str (accuracy point),
                or_empty num_str (heading point),
                or_empty num_str (accel_x point),
                or_empty num_str (accel_y point),
                or_empty num_str (accel_z point),
                or_empty num_str (accel_magnitude point)] @ newline"

text \<open>
  The rendering of a reading that is an integer, used where an example needs one, and the
  two headers of the download.
\<close>

definition integer_str :: "rat \<Rightarrow> string" where
  "integer_str x = int_str \<lfloor>x\<rfloor>"


text \<open>
  The message with which the store fails the next single commit, if it does: the SDK
  cannot be initialised, or the next \<open>commit()\<close> is rejected.
\<close>

definition sink_verdict :: "sink \<Rightarrow> string option" where
  "sink_verdict s =
     (case init_error s of
        Some e \<Rightarrow> Some e
      | None \<Rightarrow> (case responses s of Some e # rs \<Rightarrow> Some e | _ \<Rightarrow> None))"

text \<open>
  The summary of a tick, with \<open>R\<close> its result: the counter grows by one exactly when
  the result reports success, and the time, the status and the number of committed
  batches follow the result. It is shown to hold of every tick.
\<close>

definition tick_summary :: "poller \<Rightarrow> sink \<Rightarrow> environment \<Rightarrow> obj \<times> poller \<times> sink \<Rightarrow> bool" where
  "tick_summary p s env R =
     (let ok = truthy (field (fst R) ''success''); p' = fst (snd R); s' = snd (snd R)
      in fetchCount p' = fetchCount p + (if ok then 1 else 0)
         \<and> lastFetchTime p' = (if ok then Some (iso_string (clock_done env)) else lastFetchTime p)
         \<and> lastFetchStatus p' =
             (if ok then ''Success: '' @ template (field (fst R) ''stationsCount'') @ '' stations''
              else ''Error: '' @ template (field (fst R) ''error''))
         \<and> length (committed s') = length (committed s) + (if ok then 1 else 0))"

text \<open>A station as the upstream API returns it and an environment, for the examples.\<close>

definition example_station :: upstream_station where
  "example_station =
     \<lparr>u_number = Some 42, u_name = Some ''SMITHFIELD NORTH'', u_address = Some ''Smithfield North'',
      u_position = Some (Some (53349562 / 1000000), Some (- 6278198 / 1000000)),
      u_banking = None, u_bonus = None, u_bike_stands = Some 30,
      u_available_bike_stands = Some 0, u_available_bikes = Some 30,
      u_status = Some ''OPEN'', u_last_update = Some 1700000000000\<rparr>"

definition example_env :: "string option \<Rightarrow> fetch_outcome \<Rightarrow> environment" where
  "example_env key outcome =
     \<lparr>JCDECAUX_API_KEY = key, fetch = (\<lambda>url. outcome),
      clock_commit = 1700000000000, clock_done = 1700000000250\<rparr>"

section \<open>Decimal rendering is injective\<close>

lemma digit_val_digit_char: "d < 10 \<Longrightarrow> digit_val (digit_char d) = d"
  by (simp add: digit_val_def digit_char_def)

lemma is_digit_digit_char: "d < 10 \<Longrightarrow> is_digit (digit_char d)"
  by (simp add: is_digit_def digit_char_def)

lemma digits_val_snoc: "digits_val (s @ [c]) = 10 * digits_val s + digit_val c"
  by (simp add: digits_val_def)

lemma digits_val_nat_str: "digits_val (nat_str n) = n"
proof (induction n rule: nat_str.induct)
  case (1 n)
  show ?case
  proof (cases "n < 10")
    case True
    then show ?thesis
      by (subst nat_str.simps) (simp add: digits_val_def digit_val_digit_char)
  next
    case False
    with 1 show ?thesis
      by (subst nat_str.simps) (simp add: digits_val_snoc digit_val_digit_char)
  qed
qed

lemma nat_str_digits: "c \<in> set (nat_str n) \<Longrightarrow> is_digit c"
proof (induction n rule: nat_str.induct)
  case (1 n)
  show ?case
  proof (cases "n < 10")
    case True
    with 1(2) show ?thesis
      by (subst (asm) nat_str.simps) (simp add: is_digit_digit_char)
  next
    case False
    with 1 show ?thesis
      by (subst (asm) (2) nat_str.simps) (auto simp: is_digit_digit_char split: if_splits)
  qed
qed


lemma nat_str_inj: "nat_str m = nat_str n \<Longrightarrow> m = n"
  by (metis digits_val_nat_str)

lemma minus_not_digit: "\<not> is_digit (CHR ''-'')"
  by (simp add: is_digit_def)

lemma nat_str_not_minus: "nat_str n \<noteq> CHR ''-'' # s"
proof
  assume "nat_str n = CHR ''-'' # s"
  then have "CHR ''-'' \<in> set (nat_str n)" by simp
  then show False using nat_str_digits minus_not_digit by blast
qed

lemma int_str_inj: "int_str i = int_str j \<Longrightarrow> i = j"
proof -
  assume eq: "int_str i = int_str j"
  consider "i < 0" "j < 0" | "i < 0" "0 \<le> j" | "0 \<le> i" "j < 0" | "0 \<le> i" "0 \<le> j"
    by linarith
  then show ?thesis
  proof cases
    case 1
    with eq have "nat (- i) = nat (- j)" by (simp add: int_str_def nat_str_inj)
    with 1 show ?thesis by simp
  next
    case 2
    with eq have "nat_str (nat j) = CHR ''-'' # nat_str (nat (- i))" by (simp add: int_str_def)
    then show ?thesis using nat_str_not_minus by blast
  next
    case 3
    with eq have "nat_str (nat i) = CHR ''-'' # nat_str (nat (- j))" by (simp add: int_str_def)
    then show ?thesis using nat_str_not_minus by blast
  next
    case 4
    with eq have "nat i = nat j" by (simp add: int_str_def nat_str_inj)
    with 4 show ?thesis by simp
  qed
qed

section \<open>Posting records\<close>

lemma falsy_not_array: "falsy d \<Longrightarrow> \<not> isArray d"
  by (cases d) simp_all

lemma post_data_array:
  "post_data (DArr xs) sv =
     (Json 200 [(''success'', VBool True),
                (''totalPoints'', VNum (int (length (sensorData sv) + length xs))),
                (''message'', VStr (''Received '' @ nat_str (length xs) @ '' points'')),
                (''storedToCloud'', VBool True)],
      sv\<lparr>sensorData := sensorData sv @ xs,
         store := snd (addSensorDataBatch xs (store sv))\<rparr>)"
  by (simp add: post_data_def split: prod.splits)






section \<open>Sessions and the in-memory buffer\<close>

text \<open>
  C6, as stated, fails: the identifier is the reading of the clock in milliseconds, so two
  calls of \<open>POST /api/session/start\<close> that read the same millisecond return the same
  session identifier. Here the second call follows the first directly.
\<close>

theorem start_session_collision:
  "field (json_body (fst (start_session 1700000000000
      (snd (start_session 1700000000000 (initial_server fresh_sink)))))) ''sessionId''
   = field (json_body (fst (start_session 1700000000000 (initial_server fresh_sink))))
       ''sessionId''"
  by (simp add: start_session_def Let_def field_def)

text \<open>
  C6, amended: \<open>POST /api/session/start\<close> returns and stores the decimal rendering of the
  clock reading as the session identifier and clears the buffer, whatever it held, so the
  count is 0 afterwards; a later call returns the same identifier exactly when it reads
  the same clock value, and a different one otherwise.
\<close>

theorem start_session_id_and_reset:
  "field (json_body (fst (start_session now sv))) ''sessionId'' = Some (VStr (int_str now))
   \<and> sessionId (snd (start_session now sv)) = Some (int_str now)
   \<and> sensorData (snd (start_session now sv)) = []
   \<and> get_count (snd (start_session now sv))
       = Json 200 [(''count'', VNum 0), (''sessionId'', VStr (int_str now))]
   \<and> ((sessionId (snd (start_session now' (snd (start_session now sv))))
        = sessionId (snd (start_session now sv))) = (now' = now))"
proof -
  have "(int_str now' = int_str now) = (now' = now)"
    using int_str_inj by blast
  then show ?thesis
    by (simp add: start_session_def Let_def field_def get_count_def session_value_def)
qed



text \<open>
  C3, evaluated where the store rejects the commit: \<open>addSensorDataBatch\<close> reports
  \<open>success: false\<close>, the record stays in the buffer, and the response still says
  \<open>storedToCloud: true\<close>, where the claim has \<open>false\<close>.
\<close>

theorem stored_to_cloud_when_sink_rejects:
  "field (fst (addSensorDataBatch [bare_record 1000]
       (fresh_sink\<lparr>responses := [Some ''UNAVAILABLE'']\<rparr>))) ''success'' = Some (VBool False)
   \<and> field (json_body (fst (post_data (DArr [bare_record 1000])
       (initial_server (fresh_sink\<lparr>responses := [Some ''UNAVAILABLE'']\<rparr>))))) ''storedToCloud''
     = Some (VBool True)
   \<and> sensorData (snd (post_data (DArr [bare_record 1000])
       (initial_server (fresh_sink\<lparr>responses := [Some ''UNAVAILABLE'']\<rparr>))))
     = [bare_record 1000]"
  by (simp add: post_data_array field_def initial_server_def addSensorDataBatch_def
      getFirestore_def fresh_sink_def addSensorDataBatch_loop.simps commit_batch_def
      failure_def BATCH_SIZE_def)

section \<open>Chunked commits\<close>

lemma chunks_Nil: "chunks n [] = []"
  by (simp add: chunks.simps)

lemma chunks_step: "0 < n \<Longrightarrow> xs \<noteq> [] \<Longrightarrow> chunks n xs = take n xs # chunks n (drop n xs)"
  by (subst chunks.simps) simp

lemma concat_chunks: "0 < n \<Longrightarrow> concat (chunks n xs) = xs"
proof (induction n xs rule: chunks.induct)
  case (1 n xs)
  then show ?case
    by (cases "xs = []") (simp_all add: chunks_Nil chunks_step)
qed

lemma chunks_bounded: "c \<in> set (chunks n xs) \<Longrightarrow> c \<noteq> [] \<and> length c \<le> n"
proof (induction n xs rule: chunks.induct)
  case (1 n xs)
  show ?case
  proof (cases "n = 0 \<or> xs = []")
    case True
    with 1(2) show ?thesis by (subst (asm) chunks.simps) simp
  next
    case False
    with 1(2) have "c = take n xs \<or> c \<in> set (chunks n (drop n xs))"
      by (subst (asm) chunks.simps) simp
    with 1(1) False show ?thesis by auto
  qed
qed

lemma length_chunks: "0 < n \<Longrightarrow> length (chunks n xs) = (length xs + n - 1) div n"
proof (induction n xs rule: chunks.induct)
  case (1 n xs)
  show ?case
  proof (cases "xs = []")
    case True
    with 1(2) show ?thesis by (simp add: chunks_Nil)
  next
    case False
    then have pos: "0 < length xs" by simp
    have "length (chunks n xs) = Suc ((length xs - n + n - 1) div n)"
      using 1 False by (simp add: chunks_step)
    also have "\<dots> = (length xs + n - 1) div n"
    proof (cases "n \<le> length xs")
      case True
      then have "length xs + n - 1 = (length xs - 1) + 1 * n" using 1(2) by simp
      then have "(length xs + n - 1) div n = (length xs - 1) div n + 1"
        using 1(2) by (metis div_mult_self1 less_numeral_extra(3) add.commute)
      with True show ?thesis by simp
    next
      case False
      then have lt: "length xs < n" by simp
      from pos have "n \<le> length xs + n - 1" by linarith
      then have lo: "n * 1 \<le> length xs + n - 1" by simp
      from lt have "length xs + n - 1 < n + n" by linarith
      then have hi: "length xs + n - 1 < n * Suc 1" by simp
      from lo hi have "(length xs + n - 1) div n = 1"
        by (rule div_nat_eqI)
      moreover have "(length xs - n + n - 1) div n = 0" using lt by simp
      ultimately show ?thesis by simp
    qed
    finally show ?thesis .
  qed
qed

lemma loop_done:
  "\<not> i < length dataPoints \<Longrightarrow> addSensorDataBatch_loop dataPoints i results s = (Inr results, s)"
  by (subst addSensorDataBatch_loop.simps) simp

lemma loop_reject:
  "i < length dataPoints \<Longrightarrow> responses s = Some e # rest \<Longrightarrow>
   addSensorDataBatch_loop dataPoints i results s =
     (Inl e, s\<lparr>responses := rest,
               attempted := attempted s @ [sensor_batch (take BATCH_SIZE (drop i dataPoints))]\<rparr>)"
  by (subst addSensorDataBatch_loop.simps) (simp add: commit_batch_def sensor_batch_def Let_def)

lemma loop_accept:
  "i < length dataPoints \<Longrightarrow> responses s = None # rest \<Longrightarrow>
   addSensorDataBatch_loop dataPoints i results s =
     addSensorDataBatch_loop dataPoints (i + BATCH_SIZE)
       (results @ [(True, length (take BATCH_SIZE (drop i dataPoints)))])
       (s\<lparr>responses := rest,
          committed := committed s @ [sensor_batch (take BATCH_SIZE (drop i dataPoints))],
          attempted := attempted s @ [sensor_batch (take BATCH_SIZE (drop i dataPoints))]\<rparr>)"
  by (subst addSensorDataBatch_loop.simps) (simp add: commit_batch_def sensor_batch_def Let_def)

lemma loop_accept_default:
  "i < length dataPoints \<Longrightarrow> responses s = [] \<Longrightarrow>
   addSensorDataBatch_loop dataPoints i results s =
     addSensorDataBatch_loop dataPoints (i + BATCH_SIZE)
       (results @ [(True, length (take BATCH_SIZE (drop i dataPoints)))])
       (s\<lparr>committed := committed s @ [sensor_batch (take BATCH_SIZE (drop i dataPoints))],
          attempted := attempted s @ [sensor_batch (take BATCH_SIZE (drop i dataPoints))]\<rparr>)"
  by (subst addSensorDataBatch_loop.simps) (simp add: commit_batch_def sensor_batch_def Let_def)

lemma chunks_drop_step:
  "i < length dataPoints \<Longrightarrow>
   chunks BATCH_SIZE (drop i dataPoints) =
     take BATCH_SIZE (drop i dataPoints) # chunks BATCH_SIZE (drop (i + BATCH_SIZE) dataPoints)"
  by (subst chunks_step) (simp_all add: BATCH_SIZE_def add.commute)

lemma loop_rejected_at:
  "responses s = replicate k None @ Some e # rest \<Longrightarrow>
   i + k * BATCH_SIZE < length dataPoints \<Longrightarrow>
   addSensorDataBatch_loop dataPoints i results s =
     (Inl e,
      s\<lparr>responses := rest,
        committed := committed s
          @ map sensor_batch (take k (chunks BATCH_SIZE (drop i dataPoints))),
        attempted := attempted s
          @ map sensor_batch (take (Suc k) (chunks BATCH_SIZE (drop i dataPoints)))\<rparr>)"
proof (induction k arbitrary: i results s)
  case 0
  then have i: "i < length dataPoints" by simp
  from 0 have r: "responses s = Some e # rest" by simp
  show ?case
    by (simp add: loop_reject [OF i r] chunks_drop_step [OF i])
next
  case (Suc k)
  then have i: "i < length dataPoints" by simp
  from Suc.prems have r: "responses s = None # (replicate k None @ Some e # rest)" by simp
  let ?b = "sensor_batch (take BATCH_SIZE (drop i dataPoints))"
  let ?s1 = "s\<lparr>responses := replicate k None @ Some e # rest,
               committed := committed s @ [?b], attempted := attempted s @ [?b]\<rparr>"
  have r1: "responses ?s1 = replicate k None @ Some e # rest" by simp
  have b1: "i + BATCH_SIZE + k * BATCH_SIZE < length dataPoints"
    using Suc.prems(2) by (simp add: algebra_simps)
  show ?case
    by (simp add: loop_accept [OF i r] Suc.IH [OF r1 b1] chunks_drop_step [OF i])
qed

lemma loop_all_accepted:
  "set (responses s) \<subseteq> {None} \<Longrightarrow>
   addSensorDataBatch_loop dataPoints i results s =
     (Inr (results @ map (\<lambda>c. (True, length c)) (chunks BATCH_SIZE (drop i dataPoints))),
      s\<lparr>responses := drop (length (chunks BATCH_SIZE (drop i dataPoints))) (responses s),
        committed := committed s @ map sensor_batch (chunks BATCH_SIZE (drop i dataPoints)),
        attempted := attempted s @ map sensor_batch (chunks BATCH_SIZE (drop i dataPoints))\<rparr>)"
proof (induction "length dataPoints - i" arbitrary: i results s rule: less_induct)
  case less
  show ?case
  proof (cases "i < length dataPoints")
    case False
    then show ?thesis by (simp add: loop_done chunks_Nil)
  next
    case True
    let ?b = "sensor_batch (take BATCH_SIZE (drop i dataPoints))"
    have m: "length dataPoints - (i + BATCH_SIZE) < length dataPoints - i"
      using True by (simp add: BATCH_SIZE_def)
    show ?thesis
    proof (cases "responses s")
      case Nil
      let ?s1 = "s\<lparr>committed := committed s @ [?b], attempted := attempted s @ [?b]\<rparr>"
      have "set (responses ?s1) \<subseteq> {None}" using Nil by simp
      from less.hyps [OF m this] Nil show ?thesis
        by (simp add: loop_accept_default [OF True Nil] chunks_drop_step [OF True])
    next
      case (Cons r rest)
      with less.prems have r: "responses s = None # rest" and rest: "set rest \<subseteq> {None}"
        by auto
      let ?s1 = "s\<lparr>responses := rest, committed := committed s @ [?b],
                   attempted := attempted s @ [?b]\<rparr>"
      have "set (responses ?s1) \<subseteq> {None}" using rest by simp
      from less.hyps [OF m this] r show ?thesis
        by (simp add: loop_accept [OF True r] chunks_drop_step [OF True])
    qed
  qed
qed

lemma sensor_batch_accepted:
  "init_error s = None \<Longrightarrow> set (responses s) \<subseteq> {None} \<Longrightarrow>
   addSensorDataBatch dataPoints s =
     ([(''success'', VBool True),
       (''totalAdded'', VNum (int (length dataPoints))),
       (''batches'', VNum (int (length (chunks BATCH_SIZE dataPoints))))],
      s\<lparr>responses := drop (length (chunks BATCH_SIZE dataPoints)) (responses s),
        committed := committed s @ map sensor_batch (chunks BATCH_SIZE dataPoints),
        attempted := attempted s @ map sensor_batch (chunks BATCH_SIZE dataPoints)\<rparr>)"
  by (simp add: addSensorDataBatch_def getFirestore_def loop_all_accepted)

lemma sensor_batch_rejected:
  "init_error s = None \<Longrightarrow> responses s = replicate k None @ Some e # rest \<Longrightarrow>
   k * BATCH_SIZE < length dataPoints \<Longrightarrow>
   addSensorDataBatch dataPoints s =
     ([(''success'', VBool False), (''error'', VStr e)],
      s\<lparr>responses := rest,
        committed := committed s @ map sensor_batch (take k (chunks BATCH_SIZE dataPoints)),
        attempted := attempted s
          @ map sensor_batch (take (Suc k) (chunks BATCH_SIZE dataPoints))\<rparr>)"
  using loop_rejected_at [of s k e rest 0 dataPoints "[]"]
  by (simp add: addSensorDataBatch_def getFirestore_def failure_def)

lemma station_batch_single:
  "init_error s = None \<Longrightarrow>
   attempted (snd (addDublinBikesData stationsData now s))
     = attempted s @ [station_batch now stationsData]"
  by (simp add: addDublinBikesData_def getFirestore_def commit_batch_def station_batch_def
      Let_def split: list.splits option.splits)

lemma chunks_replicate_1001:
  "chunks 500 (replicate 1001 x) = [replicate 500 x, replicate 500 x, replicate 1 x]"
  by (simp add: chunks.simps)

lemma chunks_replicate_501: "chunks 500 (replicate 501 x) = [replicate 500 x, replicate 1 x]"
  by (simp add: chunks.simps)

lemma chunks_replicate_500: "chunks 500 (replicate 500 x) = [replicate 500 x]"
  by (simp add: chunks.simps)

text \<open>
  C1, as stated, fails: when the store rejects the second of three chunks, the result of
  \<open>addSensorDataBatch\<close> has no \<open>committedChunks\<close> field (the claim has it equal to 1).
\<close>

theorem committed_chunks_not_reported:
  "field (fst (addSensorDataBatch (replicate 1001 (bare_record 5))
       (fresh_sink\<lparr>responses := [None, Some ''RESOURCE_EXHAUSTED'']\<rparr>))) ''committedChunks''
   = None"
  using sensor_batch_rejected [of "fresh_sink\<lparr>responses := [None, Some ''RESOURCE_EXHAUSTED'']\<rparr>"
      1 "''RESOURCE_EXHAUSTED''" "[]" "replicate 1001 (bare_record 5)"]
  by (simp add: fresh_sink_def BATCH_SIZE_def field_def)

text \<open>
  C1, amended: if the store accepts the first \<open>k\<close> chunks and rejects the next one with
  message \<open>e\<close>, \<open>addSensorDataBatch\<close> returns exactly \<open>{success: false, error: e}\<close>,
  with no count of the chunks committed; the first \<open>k\<close> chunks stay committed, the
  rejected chunk is the last one submitted, and no later chunk is submitted.
\<close>

theorem commit_stops_at_rejected_chunk:
  assumes "init_error s = None"
    and "responses s = replicate k None @ Some e # rest"
    and "k * BATCH_SIZE < length dataPoints"
  shows "addSensorDataBatch dataPoints s =
     ([(''success'', VBool False), (''error'', VStr e)],
      s\<lparr>responses := rest,
        committed := committed s @ map sensor_batch (take k (chunks BATCH_SIZE dataPoints)),
        attempted := attempted s
          @ map sensor_batch (take (Suc k) (chunks BATCH_SIZE dataPoints))\<rparr>)"
  using assms by (rule sensor_batch_rejected)

text \<open>
  The amended C1 at the example of the claim: 1001 records, the second of the three
  chunks rejected. One chunk of 500 is committed and two were submitted.
\<close>

theorem commit_stops_at_rejected_chunk_witness:
  "init_error (fresh_sink\<lparr>responses := [None, Some ''RESOURCE_EXHAUSTED'']\<rparr>) = None
   \<and> responses (fresh_sink\<lparr>responses := [None, Some ''RESOURCE_EXHAUSTED'']\<rparr>)
       = replicate 1 None @ Some ''RESOURCE_EXHAUSTED'' # []
   \<and> 1 * BATCH_SIZE < length (replicate 1001 (bare_record 5))
   \<and> fst (addSensorDataBatch (replicate 1001 (bare_record 5))
         (fresh_sink\<lparr>responses := [None, Some ''RESOURCE_EXHAUSTED'']\<rparr>))
       = [(''success'', VBool False), (''error'', VStr ''RESOURCE_EXHAUSTED'')]
   \<and> map length (committed (snd (addSensorDataBatch (replicate 1001 (bare_record 5))
         (fresh_sink\<lparr>responses := [None, Some ''RESOURCE_EXHAUSTED'']\<rparr>)))) = [500]
   \<and> map length (attempted (snd (addSensorDataBatch (replicate 1001 (bare_record 5))
         (fresh_sink\<lparr>responses := [None, Some ''RESOURCE_EXHAUSTED'']\<rparr>)))) = [500, 500]"
  using commit_stops_at_rejected_chunk
    [of "fresh_sink\<lparr>responses := [None, Some ''RESOURCE_EXHAUSTED'']\<rparr>"
      1 "''RESOURCE_EXHAUSTED''" "[]" "replicate 1001 (bare_record 5)"]
  by (simp add: fresh_sink_def BATCH_SIZE_def chunks_replicate_1001 sensor_batch_def)

text \<open>
  C2, evaluated on 501 stations: \<open>addDublinBikesData\<close> submits them as one batch of 501
  writes, where the claim has chunks of at most 500 on every path. On the sensor path 501
  records go in two chunks of 500 and 1, 500 records in one chunk, and no record is a
  success with no commit.
\<close>

theorem station_batch_not_chunked:
  "map length (attempted (snd (addDublinBikesData (replicate 501 bare_station) 0 fresh_sink)))
   = [501]
   \<and> map length (attempted (snd (addSensorDataBatch (replicate 501 (bare_record 0)) fresh_sink)))
     = [500, 1]
   \<and> map length (attempted (snd (addSensorDataBatch (replicate 500 (bare_record 0)) fresh_sink)))
     = [500]
   \<and> addSensorDataBatch [] fresh_sink
     = ([(''success'', VBool True), (''totalAdded'', VNum 0), (''batches'', VNum 0)], fresh_sink)"
proof -
  have i: "init_error fresh_sink = None" and r: "set (responses fresh_sink) \<subseteq> {None}"
    by (simp_all add: fresh_sink_def)
  have a: "attempted fresh_sink = []" by (simp add: fresh_sink_def)
  have "map length (attempted (snd (addDublinBikesData (replicate 501 bare_station) 0 fresh_sink)))
        = [501]"
    by (simp add: station_batch_single [OF i] a station_batch_def)
  moreover have "map length (attempted (snd (addSensorDataBatch (replicate 501 (bare_record 0))
        fresh_sink))) = [500, 1]"
    by (simp add: sensor_batch_accepted [OF i r] a BATCH_SIZE_def chunks_replicate_501
        sensor_batch_def)
  moreover have "map length (attempted (snd (addSensorDataBatch (replicate 500 (bare_record 0))
        fresh_sink))) = [500]"
    by (simp add: sensor_batch_accepted [OF i r] a BATCH_SIZE_def chunks_replicate_500
        sensor_batch_def)
  moreover have "addSensorDataBatch [] fresh_sink
     = ([(''success'', VBool True), (''totalAdded'', VNum 0), (''batches'', VNum 0)], fresh_sink)"
    by (simp add: sensor_batch_accepted [OF i r] chunks_Nil)
  ultimately show ?thesis by blast
qed

section \<open>The CSV export\<close>

lemma csv_cells_valid:
  "valid_time (timestamp point) \<Longrightarrow>
   (case csv_cells num_str startTime point of
      Inl e \<Rightarrow> False
    | Inr row \<Rightarrow> join '','' row @ newline = csv_line num_str startTime point)"
  by (simp add: csv_cells_def toISOString_def csv_line_def)

lemma csv_rows_valid:
  "\<forall>p \<in> set ps. valid_time (timestamp p) \<Longrightarrow>
   csv_rows num_str startTime csv ps = Inr (csv @ concat (map (csv_line num_str startTime) ps))"
proof (induction ps arbitrary: csv)
  case Nil
  then show ?case by simp
next
  case (Cons p ps)
  then have v: "valid_time (timestamp p)" by simp
  from csv_cells_valid [OF v, of num_str startTime] Cons show ?case
    by (simp split: sum.splits)
qed


lemma hd_sort_key_Min:
  assumes "xs \<noteq> []"
  shows "timestamp (hd (sort_key timestamp xs)) = Min (timestamp ` set xs)"
proof -
  from assms have "sort_key timestamp xs \<noteq> []"
    by (metis length_0_conv length_sort)
  then obtain y ys where ys: "sort_key timestamp xs = y # ys" by (cases "sort_key timestamp xs") auto
  have "sorted (map timestamp (sort_key timestamp xs))" by simp
  with ys have le: "\<forall>z \<in> set ys. timestamp y \<le> timestamp z" by simp
  have mem: "set (y # ys) = set xs" using ys by (metis set_sort)
  have "Min (timestamp ` set xs) = timestamp y"
  proof (rule Min_eqI)
    show "finite (timestamp ` set xs)" by simp
    show "timestamp y \<in> timestamp ` set xs" using mem by auto
    fix t assume "t \<in> timestamp ` set xs"
    then obtain z where "z \<in> set (y # ys)" "t = timestamp z" using mem by auto
    with le show "timestamp y \<le> t" by auto
  qed
  with ys show ?thesis by simp
qed

lemma exportCsv_valid:
  assumes "buffer \<noteq> []" and "\<forall>p \<in> set buffer. valid_time (timestamp p)"
  shows "exportCsv num_str buffer =
     Inr (join '','' headers @ newline
          @ concat (map (csv_line num_str (Min (timestamp ` set buffer)))
                     (sort_key timestamp buffer)))"
proof -
  from assms(1) have "sort_key timestamp buffer \<noteq> []"
    by (metis length_0_conv length_sort)
  then obtain y ys where ys: "sort_key timestamp buffer = y # ys"
    by (cases "sort_key timestamp buffer") auto
  have t0: "timestamp y = Min (timestamp ` set buffer)"
    using hd_sort_key_Min [OF assms(1)] ys by simp
  have "\<forall>p \<in> set (sort_key timestamp buffer). valid_time (timestamp p)"
    using assms(2) by simp
  then have "csv_rows num_str (timestamp y) (join '','' headers @ newline)
               (sort_key timestamp buffer)
             = Inr ((join '','' headers @ newline)
                    @ concat (map (csv_line num_str (timestamp y)) (sort_key timestamp buffer)))"
    by (rule csv_rows_valid)
  then show ?thesis
    by (simp add: exportCsv_def Let_def ys [symmetric] t0 del: sort_key_simps)
       (simp add: ys t0)
qed





lemma header_row:
  "join '','' headers
     = ''timestamp,datetime,seconds_elapsed,latitude,longitude,altitude,speed,accuracy,heading,accel_x,accel_y,accel_z,accel_magnitude''"
  by code_simp



lemma or_empty_cases:
  "or_empty num_str None = []"
  "or_empty num_str (Some 0) = []"
  "or_empty num_str (Some x) = (if x = 0 then [] else num_str x)"
  by (simp_all add: or_empty_def)

lemma zero_speed_row:
  "csv_line integer_str 1000 ((bare_record 1000)\<lparr>speed := Some 0, heading := Some 90\<rparr>)
   = ''1000,1970-01-01T00:00:01.000Z,0.000,,,,,,90,,,,'' @ newline"
  by code_simp

text \<open>
  C8, evaluated on a record whose speed is present with value 0 and whose heading is 90:
  the speed cell of the line is empty (the claim has \<open>0\<close> there), the heading cell is
  \<open>90\<close>, and the absent readings are empty.
\<close>

theorem zero_reading_rendered_empty:
  "or_empty integer_str (speed ((bare_record 1000)\<lparr>speed := Some 0, heading := Some 90\<rparr>)) = []
   \<and> or_empty integer_str (heading ((bare_record 1000)\<lparr>speed := Some 0, heading := Some 90\<rparr>))
       = ''90''
   \<and> exportCsv integer_str [(bare_record 1000)\<lparr>speed := Some 0, heading := Some 90\<rparr>]
     = Inr (''timestamp,datetime,seconds_elapsed,latitude,longitude,altitude,speed,accuracy,heading,accel_x,accel_y,accel_z,accel_magnitude''
            @ newline @ ''1000,1970-01-01T00:00:01.000Z,0.000,,,,,,90,,,,'' @ newline)"
proof -
  let ?r = "(bare_record 1000)\<lparr>speed := Some 0, heading := Some 90\<rparr>"
  have t: "timestamp ?r = 1000" by (simp add: bare_record_def)
  have ne: "[?r] \<noteq> []" by simp
  have all: "\<forall>p \<in> set [?r]. valid_time (timestamp p)" by (simp add: t valid_time_def)
  have "integer_str 90 = ''90''" by code_simp
  then have cells: "or_empty integer_str (speed ?r) = []"
    "or_empty integer_str (heading ?r) = ''90''"
    by (simp_all add: or_empty_def bare_record_def)
  from exportCsv_valid [OF ne all, of integer_str] cells show ?thesis
    by (simp add: t zero_speed_row header_row)
qed

section \<open>The poller statistics\<close>

lemma stations_rejected:
  "sink_verdict s = Some e \<Longrightarrow>
   fst (addDublinBikesData ts now s) = failure e
   \<and> committed (snd (addDublinBikesData ts now s)) = committed s"
  by (auto simp: sink_verdict_def addDublinBikesData_def getFirestore_def commit_batch_def
      Let_def split: option.splits list.splits)

lemma stations_accepted:
  "sink_verdict s = None \<Longrightarrow>
   fst (addDublinBikesData ts now s) =
     [(''success'', VBool True), (''stationsAdded'', VNum (int (length ts))),
      (''timestamp'', VStr (iso_string now))]
   \<and> committed (snd (addDublinBikesData ts now s)) = committed s @ [station_batch now ts]"
  by (auto simp: sink_verdict_def addDublinBikesData_def getFirestore_def commit_batch_def
      Let_def station_batch_def split: option.splits list.splits)

lemma store_stations_rejected:
  "sink_verdict s = Some e \<Longrightarrow>
   fst (store_stations env ts p s) = failure e
   \<and> fst (snd (store_stations env ts p s)) = p\<lparr>lastFetchStatus := ''Error: '' @ e\<rparr>
   \<and> committed (snd (snd (store_stations env ts p s))) = committed s"
  using stations_rejected [of s e ts "clock_commit env"]
  by (simp add: store_stations_def case_prod_beta failure_def field_def)

lemma store_stations_accepted:
  "sink_verdict s = None \<Longrightarrow>
   fst (store_stations env ts p s) =
     [(''success'', VBool True), (''stationsCount'', VNum (int (length ts))),
      (''fetchCount'', VNum (int (fetchCount p + 1)))]
   \<and> fst (snd (store_stations env ts p s)) =
       p\<lparr>fetchCount := fetchCount p + 1,
         lastFetchTime := Some (iso_string (clock_done env)),
         lastFetchStatus := ''Success: '' @ nat_str (length ts) @ '' stations''\<rparr>
   \<and> committed (snd (snd (store_stations env ts p s)))
       = committed s @ [station_batch (clock_commit env) ts]"
  using stations_accepted [of s ts "clock_commit env"]
  by (simp add: store_stations_def case_prod_beta field_def Let_def)

lemma int_str_nat: "int_str (int n) = nat_str n"
  by (simp add: int_str_def)

lemma summary_missing_key: "tick_summary p s env (missing_key p s)"
  by (simp add: tick_summary_def missing_key_def failure_def field_def)

lemma summary_caught:
  "tick_summary p s env (caught e (p\<lparr>requests := rq\<rparr>) s)"
  by (simp add: tick_summary_def caught_def failure_def field_def)

lemma summary_store:
  "tick_summary p s env (store_stations env ts (p\<lparr>requests := rq\<rparr>) s)"
proof (cases "sink_verdict s")
  case None
  from store_stations_accepted [OF None, of env ts "p\<lparr>requests := rq\<rparr>"] show ?thesis
    by (simp add: tick_summary_def field_def int_str_nat)
next
  case (Some e)
  from store_stations_rejected [OF Some, of env ts "p\<lparr>requests := rq\<rparr>"] show ?thesis
    by (simp add: tick_summary_def field_def failure_def)
qed

lemma summary_tick: "tick_summary p s env (fetchDublinBikes env p s)"
  by (simp add: fetchDublinBikes_def Let_def summary_missing_key summary_caught summary_store
      split: option.splits fetch_outcome.splits body.splits sum.splits)

lemma tick_missing_key:
  "JCDECAUX_API_KEY env = None \<or> JCDECAUX_API_KEY env = Some [] \<Longrightarrow>
   fetchDublinBikes env p s =
     (failure ''Missing API key'', p\<lparr>lastFetchStatus := ''Error: Missing API key''\<rparr>, s)"
  by (auto simp: fetchDublinBikes_def missing_key_def)

lemma tick_bad_status:
  "JCDECAUX_API_KEY env = Some key \<Longrightarrow> key \<noteq> [] \<Longrightarrow>
   fetch env (request_url key) = HttpResponse code statusText b \<Longrightarrow>
   \<not> (200 \<le> code \<and> code \<le> 299) \<Longrightarrow>
   fetchDublinBikes env p s =
     (failure (''API returned status '' @ nat_str code @ '': '' @ statusText),
      p\<lparr>requests := requests p @ [request_url key],
        lastFetchStatus := ''Error: API returned status '' @ nat_str code @ '': '' @ statusText\<rparr>,
      s)"
  by (simp add: fetchDublinBikes_def Let_def caught_def)

lemma tick_stations:
  "JCDECAUX_API_KEY env = Some key \<Longrightarrow> key \<noteq> [] \<Longrightarrow>
   fetch env (request_url key) = HttpResponse code statusText (BodyStations stations) \<Longrightarrow>
   200 \<le> code \<and> code \<le> 299 \<Longrightarrow> transform_all stations = Inr ts \<Longrightarrow>
   fetchDublinBikes env p s
     = store_stations env ts (p\<lparr>requests := requests p @ [request_url key]\<rparr>) s"
  by (simp add: fetchDublinBikes_def Let_def)

text \<open>
  C7: the counter of fetches grows by one exactly on a tick that reports success, which is
  a tick whose commit succeeded, and then the time and the status take their success
  values; on every other tick the counter and the time are unchanged and the status is
  \<open>Error:\<close> followed by the message of the failure. With no API key the status is
  \<open>Error: Missing API key\<close> and no request is made; with a response outside 200..299 the
  status names the code and nothing is committed; when the store fails the commit the
  status carries the message of the store.
\<close>

theorem poller_counts_successes:
  "fetchCount (fst (snd (fetchDublinBikes env p s)))
     = fetchCount p + (if truthy (field (fst (fetchDublinBikes env p s)) ''success'') then 1 else 0)
   \<and> lastFetchTime (fst (snd (fetchDublinBikes env p s)))
     = (if truthy (field (fst (fetchDublinBikes env p s)) ''success'')
        then Some (iso_string (clock_done env)) else lastFetchTime p)
   \<and> lastFetchStatus (fst (snd (fetchDublinBikes env p s)))
     = (if truthy (field (fst (fetchDublinBikes env p s)) ''success'')
        then ''Success: '' @ template (field (fst (fetchDublinBikes env p s)) ''stationsCount'')
             @ '' stations''
        else ''Error: '' @ template (field (fst (fetchDublinBikes env p s)) ''error''))
   \<and> length (committed (snd (snd (fetchDublinBikes env p s))))
     = length (committed s)
       + (if truthy (field (fst (fetchDublinBikes env p s)) ''success'') then 1 else 0)
   \<and> (JCDECAUX_API_KEY env = None \<or> JCDECAUX_API_KEY env = Some [] \<longrightarrow>
        fetchDublinBikes env p s =
          (failure ''Missing API key'', p\<lparr>lastFetchStatus := ''Error: Missing API key''\<rparr>, s))
   \<and> (JCDECAUX_API_KEY env = Some key \<and> key \<noteq> []
        \<and> fetch env (request_url key) = HttpResponse code statusText b
        \<and> \<not> (200 \<le> code \<and> code \<le> 299) \<longrightarrow>
        fetchDublinBikes env p s =
          (failure (''API returned status '' @ nat_str code @ '': '' @ statusText),
           p\<lparr>requests := requests p @ [request_url key],
             lastFetchStatus :=
               ''Error: API returned status '' @ nat_str code @ '': '' @ statusText\<rparr>,
           s))
   \<and> (JCDECAUX_API_KEY env = Some key \<and> key \<noteq> []
        \<and> fetch env (request_url key) = HttpResponse code statusText (BodyStations stations)
        \<and> 200 \<le> code \<and> code \<le> 299 \<and> transform_all stations = Inr ts
        \<and> sink_verdict s = Some e \<longrightarrow>
        fst (fetchDublinBikes env p s) = failure e
        \<and> fst (snd (fetchDublinBikes env p s)) =
            p\<lparr>requests := requests p @ [request_url key], lastFetchStatus := ''Error: '' @ e\<rparr>
        \<and> committed (snd (snd (fetchDublinBikes env p s))) = committed s)
   \<and> (JCDECAUX_API_KEY env = Some key \<and> key \<noteq> []
        \<and> fetch env (request_url key) = HttpResponse code statusText (BodyStations stations)
        \<and> 200 \<le> code \<and> code \<le> 299 \<and> transform_all stations = Inr ts
        \<and> sink_verdict s = None \<longrightarrow>
        fst (snd (fetchDublinBikes env p s)) =
            p\<lparr>requests := requests p @ [request_url key],
              fetchCount := fetchCount p + 1,
              lastFetchTime := Some (iso_string (clock_done env)),
              lastFetchStatus := ''Success: '' @ nat_str (length ts) @ '' stations''\<rparr>
        \<and> committed (snd (snd (fetchDublinBikes env p s)))
            = committed s @ [station_batch (clock_commit env) ts])"
proof (intro conjI impI)
  show "fetchCount (fst (snd (fetchDublinBikes env p s)))
     = fetchCount p + (if truthy (field (fst (fetchDublinBikes env p s)) ''success'') then 1 else 0)"
    and "lastFetchTime (fst (snd (fetchDublinBikes env p s)))
     = (if truthy (field (fst (fetchDublinBikes env p s)) ''success'')
        then Some (iso_string (clock_done env)) else lastFetchTime p)"
    and "lastFetchStatus (fst (snd (fetchDublinBikes env p s)))
     = (if truthy (field (fst (fetchDublinBikes env p s)) ''success'')
        then ''Success: '' @ template (field (fst (fetchDublinBikes env p s)) ''stationsCount'')
             @ '' stations''
        else ''Error: '' @ template (field (fst (fetchDublinBikes env p s)) ''error''))"
    and "length (committed (snd (snd (fetchDublinBikes env p s))))
     = length (committed s)
       + (if truthy (field (fst (fetchDublinBikes env p s)) ''success'') then 1 else 0)"
    using summary_tick [of p s env] by (simp_all add: tick_summary_def Let_def)
next
  assume "JCDECAUX_API_KEY env = None \<or> JCDECAUX_API_KEY env = Some []"
  then show "fetchDublinBikes env p s =
      (failure ''Missing API key'', p\<lparr>lastFetchStatus := ''Error: Missing API key''\<rparr>, s)"
    by (rule tick_missing_key)
next
  assume "JCDECAUX_API_KEY env = Some key \<and> key \<noteq> []
        \<and> fetch env (request_url key) = HttpResponse code statusText b
        \<and> \<not> (200 \<le> code \<and> code \<le> 299)"
  then show "fetchDublinBikes env p s =
          (failure (''API returned status '' @ nat_str code @ '': '' @ statusText),
           p\<lparr>requests := requests p @ [request_url key],
             lastFetchStatus :=
               ''Error: API returned status '' @ nat_str code @ '': '' @ statusText\<rparr>,
           s)"
    using tick_bad_status by blast
next
  assume a: "JCDECAUX_API_KEY env = Some key \<and> key \<noteq> []
        \<and> fetch env (request_url key) = HttpResponse code statusText (BodyStations stations)
        \<and> 200 \<le> code \<and> code \<le> 299 \<and> transform_all stations = Inr ts
        \<and> sink_verdict s = Some e"
  then have t: "fetchDublinBikes env p s
     = store_stations env ts (p\<lparr>requests := requests p @ [request_url key]\<rparr>) s"
    using tick_stations by blast
  from a have v: "sink_verdict s = Some e" by simp
  show "fst (fetchDublinBikes env p s) = failure e"
    and "fst (snd (fetchDublinBikes env p s)) =
            p\<lparr>requests := requests p @ [request_url key], lastFetchStatus := ''Error: '' @ e\<rparr>"
    and "committed (snd (snd (fetchDublinBikes env p s))) = committed s"
    using store_stations_rejected [OF v] by (simp_all add: t)
next
  assume a: "JCDECAUX_API_KEY env = Some key \<and> key \<noteq> []
        \<and> fetch env (request_url key) = HttpResponse code statusText (BodyStations stations)
        \<and> 200 \<le> code \<and> code \<le> 299 \<and> transform_all stations = Inr ts
        \<and> sink_verdict s = None"
  then have t: "fetchDublinBikes env p s
     = store_stations env ts (p\<lparr>requests := requests p @ [request_url key]\<rparr>) s"
    using tick_stations by blast
  from a have v: "sink_verdict s = None" by simp
  show "fst (snd (fetchDublinBikes env p s)) =
            p\<lparr>requests := requests p @ [request_url key],
              fetchCount := fetchCount p + 1,
              lastFetchTime := Some (iso_string (clock_done env)),
              lastFetchStatus := ''Success: '' @ nat_str (length ts) @ '' stations''\<rparr>"
    and "committed (snd (snd (fetchDublinBikes env p s)))
            = committed s @ [station_batch (clock_commit env) ts]"
    using store_stations_accepted [OF v] by (simp_all add: t)
qed

lemma iso_example: "iso_string 1700000000250 = ''2023-11-14T22:13:20.250Z''"
  by code_simp

lemma nat_str_examples: "nat_str 503 = ''503''" "nat_str (Suc 0) = ''1''"
  by code_simp+

text \<open>
  C7 at four ticks from the initial statistics: no API key, an upstream 503, a commit that
  the store rejects, and a commit that succeeds.
\<close>

theorem poller_counts_successes_witness:
  "lastFetchStatus (fst (snd (fetchDublinBikes
       (example_env None (NetworkError ''unreachable'')) initial_poller fresh_sink)))
     = ''Error: Missing API key''
   \<and> fetchCount (fst (snd (fetchDublinBikes
       (example_env None (NetworkError ''unreachable'')) initial_poller fresh_sink))) = 0
   \<and> requests (fst (snd (fetchDublinBikes
       (example_env None (NetworkError ''unreachable'')) initial_poller fresh_sink))) = []
   \<and> lastFetchStatus (fst (snd (fetchDublinBikes
       (example_env (Some ''KEY'') (HttpResponse 503 ''Service Unavailable'' (BodyError ''no body'')))
       initial_poller fresh_sink)))
     = ''Error: API returned status 503: Service Unavailable''
   \<and> fetchCount (fst (snd (fetchDublinBikes
       (example_env (Some ''KEY'') (HttpResponse 503 ''Service Unavailable'' (BodyError ''no body'')))
       initial_poller fresh_sink))) = 0
   \<and> lastFetchStatus (fst (snd (fetchDublinBikes
       (example_env (Some ''KEY'') (HttpResponse 200 ''OK'' (BodyStations [example_station])))
       initial_poller (fresh_sink\<lparr>responses := [Some ''UNAVAILABLE'']\<rparr>))))
     = ''Error: UNAVAILABLE''
   \<and> fetchCount (fst (snd (fetchDublinBikes
       (example_env (Some ''KEY'') (HttpResponse 200 ''OK'' (BodyStations [example_station])))
       initial_poller (fresh_sink\<lparr>responses := [Some ''UNAVAILABLE'']\<rparr>)))) = 0
   \<and> fetchCount (fst (snd (fetchDublinBikes
       (example_env (Some ''KEY'') (HttpResponse 200 ''OK'' (BodyStations [example_station])))
       initial_poller fresh_sink))) = 1
   \<and> lastFetchTime (fst (snd (fetchDublinBikes
       (example_env (Some ''KEY'') (HttpResponse 200 ''OK'' (BodyStations [example_station])))
       initial_poller fresh_sink))) = Some ''2023-11-14T22:13:20.250Z''
   \<and> lastFetchStatus (fst (snd (fetchDublinBikes
       (example_env (Some ''KEY'') (HttpResponse 200 ''OK'' (BodyStations [example_station])))
       initial_poller fresh_sink))) = ''Success: 1 stations''"
proof -
  let ?none = "example_env None (NetworkError ''unreachable'')"
  let ?bad = "example_env (Some ''KEY'')
                (HttpResponse 503 ''Service Unavailable'' (BodyError ''no body''))"
  let ?ok = "example_env (Some ''KEY'') (HttpResponse 200 ''OK'' (BodyStations [example_station]))"
  let ?rej = "fresh_sink\<lparr>responses := [Some ''UNAVAILABLE'']\<rparr>"
  obtain ts where ts: "transform_all [example_station] = Inr [ts]"
    by (simp add: transform_station_def example_station_def)
  have w1: "fetchDublinBikes ?none initial_poller fresh_sink =
      (failure ''Missing API key'',
       initial_poller\<lparr>lastFetchStatus := ''Error: Missing API key''\<rparr>, fresh_sink)"
    using poller_counts_successes [where env = ?none and p = initial_poller and s = fresh_sink]
    by (simp add: example_env_def)
  have w2: "fetchDublinBikes ?bad initial_poller fresh_sink =
      (failure (''API returned status '' @ nat_str 503 @ '': '' @ ''Service Unavailable''),
       initial_poller\<lparr>requests := requests initial_poller @ [request_url ''KEY''],
         lastFetchStatus :=
           ''Error: API returned status '' @ nat_str 503 @ '': '' @ ''Service Unavailable''\<rparr>,
       fresh_sink)"
    using poller_counts_successes [where env = ?bad and p = initial_poller and s = fresh_sink
        and key = "''KEY''" and code = 503 and statusText = "''Service Unavailable''"
        and b = "BodyError ''no body''"]
    by (simp add: example_env_def)
  have w3: "fst (snd (fetchDublinBikes ?ok initial_poller ?rej)) =
      initial_poller\<lparr>requests := requests initial_poller @ [request_url ''KEY''],
        lastFetchStatus := ''Error: '' @ ''UNAVAILABLE''\<rparr>"
    using poller_counts_successes [where env = ?ok and p = initial_poller and s = ?rej
        and key = "''KEY''" and code = 200 and statusText = "''OK''"
        and stations = "[example_station]" and ts = "[ts]" and e = "''UNAVAILABLE''"] ts
    by (simp add: example_env_def sink_verdict_def fresh_sink_def)
  have w4: "fst (snd (fetchDublinBikes ?ok initial_poller fresh_sink)) =
      initial_poller\<lparr>requests := requests initial_poller @ [request_url ''KEY''],
        fetchCount := fetchCount initial_poller + 1,
        lastFetchTime := Some (iso_string (clock_done ?ok)),
        lastFetchStatus := ''Success: '' @ nat_str (length [ts]) @ '' stations''\<rparr>"
    using poller_counts_successes [where env = ?ok and p = initial_poller and s = fresh_sink
        and key = "''KEY''" and code = 200 and statusText = "''OK''"
        and stations = "[example_station]" and ts = "[ts]"] ts
    by (simp add: example_env_def sink_verdict_def fresh_sink_def)
  have c: "clock_done ?ok = 1700000000250" by (simp add: example_env_def)
  show ?thesis
    by (simp only: w1 w2 w3 w4) (simp add: c initial_poller_def iso_example nat_str_examples)
qed

section \<open>The limit of the query endpoints\<close>














end
